theory Spec2Isabelle
  imports Complex_Main
begin

section \<open>The vector store service of app/core/vector\_store.py\<close>

text \<open>
  The module is a facade over two collaborators: the Qdrant client (collection metadata,
  creation, deletion, listing) and the LangChain vector store bound to one collection
  (adding documents, similarity search). Neither collaborator is part of the module, so
  each of their calls is an oracle of the environment \<open>env\<close>: it may return a value or
  raise, and its answer may depend on every call made before. The module's own state is
  the record \<open>process\<close>: the calls made so far, the cache of \<open>get_qdrant_client\<close> and the
  number of identifiers drawn from \<open>uuid4\<close>.

  Logging calls change nothing that the module returns or requests and are left out.
\<close>

subsection \<open>Exceptions\<close>

text \<open>
  The exceptions (subclasses of Python's \<open>Exception\<close>) that a collaborator can raise. The
  module tells them apart by class only: \<open>except UnexpectedResponse\<close> against
  \<open>except Exception\<close>. \<open>UnexpectedResponse\<close> is the client's exception for an HTTP answer
  with an error status; it carries the status code (404 is "not found").
\<close>

datatype exn =
    UnexpectedResponse int
  | ResponseHandlingException string
  | OtherException string

fun is_UnexpectedResponse :: "exn \<Rightarrow> bool" where
  "is_UnexpectedResponse (UnexpectedResponse status_code) = True"
| "is_UnexpectedResponse e = False"

definition not_found :: "exn \<Rightarrow> bool" where
  "not_found e = (e = UnexpectedResponse 404)"

subsection \<open>Settings\<close>

text \<open>
  The fields of \<open>settings = get_settings()\<close> that the module reads (the settings class is
  declared in app/config.py).
\<close>

record settings =
  qdrant_url :: string
  qdrant_api_key :: "string option"
  collection_name :: string
  embedding_model :: string
  retrieval_k :: int

subsection \<open>Embedding dimensions\<close>

definition EMBEDDING_DIMENSIONS :: "(string \<times> int) list" where
  "EMBEDDING_DIMENSIONS =
     [(''text-embedding-3-small'', 1536),
      (''text-embedding-3-large'', 3072),
      (''text-embedding-ada-002'', 1536)]"

text \<open>\<open>EMBEDDING_DIMENSIONS.get(model)\<close> is \<open>map_of\<close>; \<open>None\<close> is the missing key.\<close>

definition get_embedding_dimension :: "settings \<Rightarrow> int" where
  "get_embedding_dimension s =
     (let model = embedding_model s;
          dimension = map_of EMBEDDING_DIMENSIONS model
      in case dimension of
           None \<Rightarrow> 1536
         | Some d \<Rightarrow> d)"

subsection \<open>The collaborators' data\<close>

datatype distance = COSINE | EUCLID | DOT | MANHATTAN

record vector_params =
  vp_size :: int
  vp_distance :: distance

text \<open>
  \<open>config.params.vectors\<close> of a collection: one unnamed \<open>VectorParams\<close> object, or a dict
  from vector names to \<open>VectorParams\<close> (an association list, in the dict's key order).
\<close>

datatype vectors_config =
    Unnamed vector_params
  | Named "(string \<times> vector_params) list"

datatype collection_status = GREEN | YELLOW | GREY | RED

fun status_value :: "collection_status \<Rightarrow> string" where
  "status_value GREEN = ''green''"
| "status_value YELLOW = ''yellow''"
| "status_value GREY = ''grey''"
| "status_value RED = ''red''"

text \<open>What \<open>client.get_collection\<close> returns, with the attributes the module reads.\<close>

record collection_info =
  info_status :: collection_status
  info_points_count :: "int option"
  info_indexed_vectors_count :: "int option"
  info_vectors :: "vectors_config option"

record document =
  page_content :: string
  metadata :: "(string \<times> string) list"

text \<open>The keyword arguments \<open>client_kwargs\<close>; \<open>api_key\<close> is present or absent.\<close>

record client_kwargs =
  kw_url :: string
  kw_api_key :: "string option"

text \<open>A client object: \<open>client_id\<close> is the object's identity, one per construction.\<close>

record qdrant_client =
  client_id :: nat
  client_args :: client_kwargs

datatype embeddings = Embeddings string

record vector_store =
  vs_client :: qdrant_client
  vs_collection_name :: string
  vs_embedding :: embeddings
  vs_vector_name :: string

record retriever =
  retriever_vectorstore :: vector_store
  search_type :: string
  search_kwargs_k :: int

subsection \<open>The environment and the process state\<close>

text \<open>Every call the module makes on a collaborator, with its arguments.\<close>

datatype call =
    GetCollection qdrant_client string
  | CreateCollection qdrant_client string vector_params
  | GetCollections qdrant_client
  | DeleteCollection qdrant_client string
  | NewVectorStore qdrant_client string embeddings string
  | AddDocuments vector_store "document list" "string list"
  | SimilaritySearch vector_store string int
  | SimilaritySearchWithScore vector_store string int

text \<open>
  The collaborators' answers. The first argument of an answer is the list of calls made
  before this one. \<open>uuid4_str env n\<close> is the string that the process's \<open>n\<close>-th evaluation
  of \<open>str(uuid4())\<close> yields. A similarity score is a Python float, read as the real number
  it denotes.
\<close>

record env =
  QdrantClient_answer :: "client_kwargs \<Rightarrow> exn option"
  get_embeddings_answer :: "exn + embeddings"
  get_collection_answer :: "call list \<Rightarrow> qdrant_client \<Rightarrow> string \<Rightarrow> exn + collection_info"
  create_collection_answer :: "call list \<Rightarrow> qdrant_client \<Rightarrow> string \<Rightarrow> vector_params \<Rightarrow> exn option"
  get_collections_answer :: "call list \<Rightarrow> qdrant_client \<Rightarrow> exn + string list"
  delete_collection_answer :: "call list \<Rightarrow> qdrant_client \<Rightarrow> string \<Rightarrow> exn option"
  QdrantVectorStore_answer :: "call list \<Rightarrow> vector_store \<Rightarrow> exn option"
  add_documents_answer :: "call list \<Rightarrow> vector_store \<Rightarrow> document list \<Rightarrow> string list \<Rightarrow> exn + string list"
  similarity_search_answer :: "call list \<Rightarrow> vector_store \<Rightarrow> string \<Rightarrow> int \<Rightarrow> exn + document list"
  similarity_search_with_score_answer ::
    "call list \<Rightarrow> vector_store \<Rightarrow> string \<Rightarrow> int \<Rightarrow> exn + (document \<times> real) list"
  uuid4_str :: "nat \<Rightarrow> string"

record process =
  calls :: "call list"
  client_cache :: "qdrant_client option"
  clients_created :: nat
  uuid4_calls :: nat

definition process_start :: process where
  "process_start = \<lparr>calls = [], client_cache = None, clients_created = 0, uuid4_calls = 0\<rparr>"

text \<open>A computation returns a value or raises, and leaves a new process state.\<close>

type_synonym 'a prog = "process \<Rightarrow> (exn + 'a) \<times> process"

definition called :: "call \<Rightarrow> process \<Rightarrow> process" where
  "called c p = p\<lparr>calls := calls p @ [c]\<rparr>"

definition raise_or_unit :: "exn option \<Rightarrow> exn + unit" where
  "raise_or_unit a = (case a of None \<Rightarrow> Inr () | Some e \<Rightarrow> Inl e)"

text \<open>Sequencing: an exception of the first computation skips the second.\<close>

definition and_then :: "'a prog \<Rightarrow> ('a \<Rightarrow> 'b prog) \<Rightarrow> 'b prog" where
  "and_then m f p = (case m p of (Inl e, p') \<Rightarrow> (Inl e, p') | (Inr x, p') \<Rightarrow> f x p')"

subsection \<open>Calls on the collaborators\<close>

definition client_get_collection :: "env \<Rightarrow> qdrant_client \<Rightarrow> string \<Rightarrow> collection_info prog" where
  "client_get_collection env client name p =
     (get_collection_answer env (calls p) client name, called (GetCollection client name) p)"

definition client_create_collection ::
  "env \<Rightarrow> qdrant_client \<Rightarrow> string \<Rightarrow> vector_params \<Rightarrow> unit prog" where
  "client_create_collection env client name vectors_config p =
     (raise_or_unit (create_collection_answer env (calls p) client name vectors_config),
      called (CreateCollection client name vectors_config) p)"

definition client_get_collections :: "env \<Rightarrow> qdrant_client \<Rightarrow> string list prog" where
  "client_get_collections env client p =
     (get_collections_answer env (calls p) client, called (GetCollections client) p)"

definition client_delete_collection :: "env \<Rightarrow> qdrant_client \<Rightarrow> string \<Rightarrow> unit prog" where
  "client_delete_collection env client name p =
     (raise_or_unit (delete_collection_answer env (calls p) client name),
      called (DeleteCollection client name) p)"

definition QdrantVectorStore ::
  "env \<Rightarrow> qdrant_client \<Rightarrow> string \<Rightarrow> embeddings \<Rightarrow> string \<Rightarrow> vector_store prog" where
  "QdrantVectorStore env client name embedding vector_name p =
     (let vs = \<lparr>vs_client = client, vs_collection_name = name,
                vs_embedding = embedding, vs_vector_name = vector_name\<rparr>
      in (case QdrantVectorStore_answer env (calls p) vs of
            None \<Rightarrow> Inr vs
          | Some e \<Rightarrow> Inl e,
          called (NewVectorStore client name embedding vector_name) p))"

definition vs_add_documents ::
  "env \<Rightarrow> vector_store \<Rightarrow> document list \<Rightarrow> string list \<Rightarrow> string list prog" where
  "vs_add_documents env vs documents ids p =
     (add_documents_answer env (calls p) vs documents ids, called (AddDocuments vs documents ids) p)"

definition vs_similarity_search :: "env \<Rightarrow> vector_store \<Rightarrow> string \<Rightarrow> int \<Rightarrow> document list prog" where
  "vs_similarity_search env vs query k p =
     (similarity_search_answer env (calls p) vs query k, called (SimilaritySearch vs query k) p)"

definition vs_similarity_search_with_score ::
  "env \<Rightarrow> vector_store \<Rightarrow> string \<Rightarrow> int \<Rightarrow> (document \<times> real) list prog" where
  "vs_similarity_search_with_score env vs query k p =
     (similarity_search_with_score_answer env (calls p) vs query k,
      called (SimilaritySearchWithScore vs query k) p)"

text \<open>
  \<open>as_retriever\<close> builds a retriever object around the vector store; it makes no request.
\<close>

definition vs_as_retriever :: "vector_store \<Rightarrow> string \<Rightarrow> int \<Rightarrow> retriever" where
  "vs_as_retriever vs st k =
     \<lparr>retriever_vectorstore = vs, search_type = st, search_kwargs_k = k\<rparr>"

subsection \<open>Python's \<open>or\<close> on optional values\<close>

text \<open>
  \<open>x or y\<close> is \<open>x\<close> when \<open>x\<close> is truthy and \<open>y\<close> otherwise. \<open>None\<close>, the integer 0 and the
  empty string are falsy.
\<close>

definition int_or :: "int option \<Rightarrow> int \<Rightarrow> int" where
  "int_or k d = (case k of None \<Rightarrow> d | Some n \<Rightarrow> if n = 0 then d else n)"

definition str_or :: "string option \<Rightarrow> string \<Rightarrow> string" where
  "str_or x d = (case x of None \<Rightarrow> d | Some n \<Rightarrow> if n = [] then d else n)"

definition truthy_str :: "string option \<Rightarrow> bool" where
  "truthy_str x = (case x of None \<Rightarrow> False | Some n \<Rightarrow> n \<noteq> [])"

subsection \<open>The client accessor\<close>

text \<open>
  \<open>get_qdrant_client\<close> is wrapped in \<open>lru_cache\<close> and takes no argument: the cache holds the
  value of the first call that returned; a call that raised stores nothing.
\<close>

definition get_qdrant_client :: "env \<Rightarrow> settings \<Rightarrow> qdrant_client prog" where
  "get_qdrant_client env s p =
     (case client_cache p of
        Some client \<Rightarrow> (Inr client, p)
      | None \<Rightarrow>
          (let client_kwargs =
                 (if truthy_str (qdrant_api_key s)
                  then \<lparr>kw_url = qdrant_url s, kw_api_key = qdrant_api_key s\<rparr>
                  else \<lparr>kw_url = qdrant_url s, kw_api_key = None\<rparr>)
           in case QdrantClient_answer env client_kwargs of
                Some e \<Rightarrow> (Inl e, p)
              | None \<Rightarrow>
                  (let client = \<lparr>client_id = clients_created p, client_args = client_kwargs\<rparr>
                   in (Inr client,
                       p\<lparr>client_cache := Some client,
                         clients_created := Suc (clients_created p)\<rparr>))))"

subsection \<open>The service\<close>

record service =
  self_collection_name :: string
  self_client :: qdrant_client
  self_embeddings :: embeddings
  self_vector_store :: vector_store

text \<open>
  \<open>_ensure_collection\<close> and \<open>_get_vector_name\<close> run inside \<open>__init__\<close>, before the
  vector store is built, and read \<open>self.client\<close> and \<open>self.collection_name\<close> only: these
  two are their arguments. (An Isabelle name cannot start with an underscore.)
\<close>

definition ensure_collection :: "env \<Rightarrow> settings \<Rightarrow> qdrant_client \<Rightarrow> string \<Rightarrow> unit prog" where
  "ensure_collection env s client name p =
     (case client_get_collection env client name p of
        (Inr collection_info, p1) \<Rightarrow> (Inr (), p1)
      | (Inl e, p1) \<Rightarrow>
          if is_UnexpectedResponse e then
            (let embedding_dim = get_embedding_dimension s
             in client_create_collection env client name
                  \<lparr>vp_size = embedding_dim, vp_distance = COSINE\<rparr> p1)
          else (Inl e, p1))"

definition get_vector_name :: "env \<Rightarrow> qdrant_client \<Rightarrow> string \<Rightarrow> string prog" where
  "get_vector_name env client name p =
     (case client_get_collection env client name p of
        (Inr collection_info, p1) \<Rightarrow>
          (case info_vectors collection_info of
             Some (Named vectors_config) \<Rightarrow>
               (case map fst vectors_config of
                  vector_name # rest \<Rightarrow> (Inr vector_name, p1)
                | [] \<Rightarrow> (Inr [], p1))
           | Some (Unnamed params) \<Rightarrow> (Inr [], p1)
           | None \<Rightarrow> (Inr [], p1))
      | (Inl e, p1) \<Rightarrow> (Inr [], p1))"

text \<open>\<open>VectorStoreService(collection_name)\<close>: the constructor \<open>__init__\<close>.\<close>

definition VectorStoreService :: "env \<Rightarrow> settings \<Rightarrow> string option \<Rightarrow> service prog" where
  "VectorStoreService env s collection_name_arg =
     (let name = str_or collection_name_arg (collection_name s) in
      and_then (get_qdrant_client env s) (\<lambda>client.
      and_then (\<lambda>p. (get_embeddings_answer env, p)) (\<lambda>embeddings.
      and_then (ensure_collection env s client name) (\<lambda>u.
      and_then (get_vector_name env client name) (\<lambda>vector_name.
      and_then (QdrantVectorStore env client name embeddings vector_name) (\<lambda>vector_store p.
        (Inr \<lparr>self_collection_name = name, self_client = client,
              self_embeddings = embeddings, self_vector_store = vector_store\<rparr>, p)))))))"

text \<open>One evaluation of \<open>str(uuid4())\<close>: the next string of the generator.\<close>

definition str_uuid4 :: "env \<Rightarrow> process \<Rightarrow> string \<times> process" where
  "str_uuid4 env p = (uuid4_str env (uuid4_calls p), p\<lparr>uuid4_calls := Suc (uuid4_calls p)\<rparr>)"

text \<open>The comprehension \<open>[str(uuid4()) for _ in documents]\<close>: one evaluation per element.\<close>

fun fresh_ids :: "env \<Rightarrow> document list \<Rightarrow> process \<Rightarrow> string list \<times> process" where
  "fresh_ids env [] p = ([], p)"
| "fresh_ids env (d # ds) p =
     (case str_uuid4 env p of (i, p1) \<Rightarrow>
        (case fresh_ids env ds p1 of (ids, p2) \<Rightarrow> (i # ids, p2)))"

definition add_documents :: "env \<Rightarrow> service \<Rightarrow> document list \<Rightarrow> string list prog" where
  "add_documents env self documents p =
     (if documents = [] then (Inr [], p)
      else
        (case fresh_ids env documents p of (ids, p1) \<Rightarrow>
           (case vs_add_documents env (self_vector_store self) documents ids p1 of
              (Inl e, p2) \<Rightarrow> (Inl e, p2)
            | (Inr stored, p2) \<Rightarrow> (Inr ids, p2))))"

definition search :: "env \<Rightarrow> settings \<Rightarrow> service \<Rightarrow> string \<Rightarrow> int option \<Rightarrow> document list prog" where
  "search env s self query k p =
     (let k' = int_or k (retrieval_k s)
      in vs_similarity_search env (self_vector_store self) query k' p)"

definition search_with_scores ::
  "env \<Rightarrow> settings \<Rightarrow> service \<Rightarrow> string \<Rightarrow> int option \<Rightarrow> (document \<times> real) list prog" where
  "search_with_scores env s self query k p =
     (let k' = int_or k (retrieval_k s)
      in vs_similarity_search_with_score env (self_vector_store self) query k' p)"

definition get_retriever :: "settings \<Rightarrow> service \<Rightarrow> int option \<Rightarrow> retriever prog" where
  "get_retriever s self k p =
     (let k' = int_or k (retrieval_k s)
      in (Inr (vs_as_retriever (self_vector_store self) ''similarity'' k'), p))"

definition delete_collection :: "env \<Rightarrow> service \<Rightarrow> unit prog" where
  "delete_collection env self p =
     client_delete_collection env (self_client self) (self_collection_name self) p"

text \<open>The dict that \<open>get_collection_info\<close> returns, one field per key.\<close>

record collection_stats =
  name :: string
  points_count :: "int option"
  indexed_vectors_count :: "int option"
  status :: string

definition get_collection_info :: "env \<Rightarrow> service \<Rightarrow> collection_stats prog" where
  "get_collection_info env self p =
     (case client_get_collection env (self_client self) (self_collection_name self) p of
        (Inr info, p1) \<Rightarrow>
          (Inr \<lparr>name = self_collection_name self,
                points_count = info_points_count info,
                indexed_vectors_count = info_indexed_vectors_count info,
                status = status_value (info_status info)\<rparr>, p1)
      | (Inl e, p1) \<Rightarrow>
          if is_UnexpectedResponse e then
            (Inr \<lparr>name = self_collection_name self,
                  points_count = Some 0,
                  indexed_vectors_count = Some 0,
                  status = ''not_found''\<rparr>, p1)
          else (Inl e, p1))"

definition health_check :: "env \<Rightarrow> service \<Rightarrow> bool prog" where
  "health_check env self p =
     (case client_get_collections env (self_client self) p of
        (Inr collections, p1) \<Rightarrow> (Inr True, p1)
      | (Inl e, p1) \<Rightarrow> (Inr False, p1))"

subsection \<open>Runs of the process\<close>

text \<open>
  \<open>reaches env s p q\<close>: the process gets from state \<open>p\<close> to state \<open>q\<close> by calls of the
  module's functions, with any arguments and on any service object.
\<close>

inductive reaches :: "env \<Rightarrow> settings \<Rightarrow> process \<Rightarrow> process \<Rightarrow> bool" for env s p where
  here: "reaches env s p p"
| by_get_qdrant_client:
    "reaches env s p q \<Longrightarrow> reaches env s p (snd (get_qdrant_client env s q))"
| by_VectorStoreService:
    "reaches env s p q \<Longrightarrow> reaches env s p (snd (VectorStoreService env s arg q))"
| by_add_documents:
    "reaches env s p q \<Longrightarrow> reaches env s p (snd (add_documents env self documents q))"
| by_search:
    "reaches env s p q \<Longrightarrow> reaches env s p (snd (search env s self query k q))"
| by_search_with_scores:
    "reaches env s p q \<Longrightarrow> reaches env s p (snd (search_with_scores env s self query k q))"
| by_get_retriever:
    "reaches env s p q \<Longrightarrow> reaches env s p (snd (get_retriever s self k q))"
| by_delete_collection:
    "reaches env s p q \<Longrightarrow> reaches env s p (snd (delete_collection env self q))"
| by_get_collection_info:
    "reaches env s p q \<Longrightarrow> reaches env s p (snd (get_collection_info env self q))"
| by_health_check:
    "reaches env s p q \<Longrightarrow> reaches env s p (snd (health_check env self q))"

text \<open>The one client object of a process configured by \<open>s\<close>: the first one constructed.\<close>

definition the_client :: "settings \<Rightarrow> qdrant_client" where
  "the_client s =
     \<lparr>client_id = 0,
      client_args = \<lparr>kw_url = qdrant_url s,
                     kw_api_key = (if truthy_str (qdrant_api_key s) then qdrant_api_key s
                                   else None)\<rparr>\<rparr>"

text \<open>
  The state of the accessor's cache in a process that started with an empty one: empty and
  no client constructed yet, or holding the first client with no other constructed since.
\<close>

definition cache_ok :: "settings \<Rightarrow> process \<Rightarrow> bool" where
  "cache_ok s p =
     (case client_cache p of
        None \<Rightarrow> clients_created p = 0
      | Some client \<Rightarrow> client = the_client s \<and> clients_created p = 1)"

text \<open>A computation that neither reads nor writes the cache of the accessor.\<close>

definition keeps_cache :: "'a prog \<Rightarrow> bool" where
  "keeps_cache m =
     (\<forall>p. client_cache (snd (m p)) = client_cache p
          \<and> clients_created (snd (m p)) = clients_created p)"

subsection \<open>What the module expects of the vector store\<close>




subsection \<open>A concrete environment\<close>

text \<open>
  A store at localhost that holds the collection \<open>documents\<close> with five documents, answers
  every request, and reports any other collection as not found (status 404).
\<close>

definition demo_settings :: settings where
  "demo_settings =
     \<lparr>qdrant_url = ''http://localhost:6333'', qdrant_api_key = None,
      collection_name = ''documents'', embedding_model = ''text-embedding-3-large'',
      retrieval_k = 4\<rparr>"

definition demo_doc :: "string \<Rightarrow> document" where
  "demo_doc text = \<lparr>page_content = text, metadata = []\<rparr>"

definition demo_corpus :: "(document \<times> real) list" where
  "demo_corpus =
     [(demo_doc ''a'', 0.9), (demo_doc ''b'', 0.8), (demo_doc ''c'', 0.7),
      (demo_doc ''d'', 0.6), (demo_doc ''e'', 0.5)]"

definition demo_info :: collection_info where
  "demo_info =
     \<lparr>info_status = GREEN, info_points_count = Some 5, info_indexed_vectors_count = Some 5,
      info_vectors = Some (Unnamed \<lparr>vp_size = 3072, vp_distance = COSINE\<rparr>)\<rparr>"

text \<open>The strings that \<open>str(uuid4())\<close> yields in this environment, in the order drawn.\<close>

definition demo_uuid :: "nat \<Rightarrow> string" where
  "demo_uuid n =
     (if n = 0 then ''9f1c2a34-5b6d-4e7f-8a90-b1c2d3e4f506''
      else if n = 1 then ''0a1b2c3d-4e5f-4a6b-8c7d-9e0f1a2b3c4d''
      else ''6d7e8f90-a1b2-4c3d-9e4f-5a6b7c8d9e0f'')"

definition demo_env :: env where
  "demo_env =
     \<lparr>QdrantClient_answer = (\<lambda>kwargs. None),
      get_embeddings_answer = Inr (Embeddings ''text-embedding-3-large''),
      get_collection_answer =
        (\<lambda>cs client n. if n = ''documents'' then Inr demo_info
                        else Inl (UnexpectedResponse 404)),
      create_collection_answer = (\<lambda>cs client n params. None),
      get_collections_answer = (\<lambda>cs client. Inr [''documents'']),
      delete_collection_answer = (\<lambda>cs client n. None),
      QdrantVectorStore_answer = (\<lambda>cs vs. None),
      add_documents_answer = (\<lambda>cs vs documents ids. Inr ids),
      similarity_search_answer = (\<lambda>cs vs query k. Inr (map fst (take (nat k) demo_corpus))),
      similarity_search_with_score_answer = (\<lambda>cs vs query k. Inr (take (nat k) demo_corpus)),
      uuid4_str = demo_uuid\<rparr>"

definition demo_client :: qdrant_client where
  "demo_client = the_client demo_settings"

definition demo_service :: service where
  "demo_service =
     \<lparr>self_collection_name = ''documents'', self_client = demo_client,
      self_embeddings = Embeddings ''text-embedding-3-large'',
      self_vector_store =
        \<lparr>vs_client = demo_client, vs_collection_name = ''documents'',
         vs_embedding = Embeddings ''text-embedding-3-large'', vs_vector_name = []\<rparr>\<rparr>"

text \<open>The process after its first \<open>VectorStoreService()\<close> in this environment.\<close>

definition demo_running :: process where
  "demo_running =
     \<lparr>calls =
        [GetCollection demo_client ''documents'',
         GetCollection demo_client ''documents'',
         NewVectorStore demo_client ''documents'' (Embeddings ''text-embedding-3-large'') []],
      client_cache = Some demo_client, clients_created = 1, uuid4_calls = 0\<rparr>"


text \<open>The same store behind a gateway that answers the metadata lookup with 503.\<close>

definition outage_env :: env where
  "outage_env =
     demo_env\<lparr>get_collection_answer := (\<lambda>cs client n. Inl (UnexpectedResponse 503))\<rparr>"

text \<open>The same store, unreachable: every client call fails in the transport.\<close>

definition offline_env :: env where
  "offline_env =
     demo_env\<lparr>get_collection_answer :=
                (\<lambda>cs client n. Inl (ResponseHandlingException ''connection refused'')),
              get_collections_answer :=
                (\<lambda>cs client. Inl (ResponseHandlingException ''connection refused''))\<rparr>"

text \<open>A store whose collection \<open>documents\<close> keeps its vectors under two names.\<close>

definition named_env :: env where
  "named_env =
     demo_env\<lparr>get_collection_answer :=
       (\<lambda>cs client n. Inr (demo_info\<lparr>info_vectors :=
          Some (Named [(''dense'', \<lparr>vp_size = 3072, vp_distance = COSINE\<rparr>),
                       (''sparse'', \<lparr>vp_size = 512, vp_distance = DOT\<rparr>)])\<rparr>))\<rparr>"

section \<open>Properties\<close>

subsection \<open>Embedding dimensions\<close>

text \<open>
  C5. For each of the three model names of the table, \<open>get_embedding_dimension\<close> returns the
  table's constant: 1536 for text-embedding-3-small, 3072 for text-embedding-3-large, 1536
  for text-embedding-ada-002. For every model name that is not a key of the table it returns
  1536. The function has no raising path: it is a total function into the integers.
\<close>

theorem get_embedding_dimension_table:
  "get_embedding_dimension (s\<lparr>embedding_model := ''text-embedding-3-small''\<rparr>) = 1536
   \<and> get_embedding_dimension (s\<lparr>embedding_model := ''text-embedding-3-large''\<rparr>) = 3072
   \<and> get_embedding_dimension (s\<lparr>embedding_model := ''text-embedding-ada-002''\<rparr>) = 1536
   \<and> (\<forall>k v. (k, v) \<in> set EMBEDDING_DIMENSIONS \<and> embedding_model s = k
          \<longrightarrow> get_embedding_dimension s = v)
   \<and> (embedding_model s \<notin> fst ` set EMBEDDING_DIMENSIONS
          \<longrightarrow> get_embedding_dimension s = 1536)"
  by (auto simp: get_embedding_dimension_def EMBEDDING_DIMENSIONS_def)

theorem get_embedding_dimension_table_witness:
  "(''text-embedding-3-large'', 3072) \<in> set EMBEDDING_DIMENSIONS
   \<and> get_embedding_dimension
        \<lparr>qdrant_url = ''http://localhost:6333'', qdrant_api_key = None,
         collection_name = ''docs'', embedding_model = ''text-embedding-3-large'',
         retrieval_k = 4\<rparr> = 3072
   \<and> ''my-model'' \<notin> fst ` set EMBEDDING_DIMENSIONS
   \<and> get_embedding_dimension
        \<lparr>qdrant_url = ''http://localhost:6333'', qdrant_api_key = None,
         collection_name = ''docs'', embedding_model = ''my-model'',
         retrieval_k = 4\<rparr> = 1536"
  using get_embedding_dimension_table
    [of "\<lparr>qdrant_url = ''http://localhost:6333'', qdrant_api_key = None,
         collection_name = ''docs'', embedding_model = ''text-embedding-3-large'',
         retrieval_k = 4\<rparr>"]
    get_embedding_dimension_table
    [of "\<lparr>qdrant_url = ''http://localhost:6333'', qdrant_api_key = None,
         collection_name = ''docs'', embedding_model = ''my-model'',
         retrieval_k = 4\<rparr>"]
  by (simp add: EMBEDDING_DIMENSIONS_def)

subsection \<open>Ensuring the collection\<close>

text \<open>
  C1, as the code has it. \<open>_ensure_collection\<close> tells the failures of the metadata lookup
  apart by exception class, not by status. When the lookup raises \<open>UnexpectedResponse\<close>,
  with status 404 (not found) or any other status, it asks the client to create the
  collection with vector size \<open>get_embedding_dimension\<close> of the settings and cosine distance,
  and its outcome is the outcome of that request. When the lookup raises an exception of
  any other class, that exception is propagated and the lookup is the only call made: no
  creation is requested.
\<close>

theorem ensure_collection_by_class:
  assumes lookup: "get_collection_answer env (calls p) client cname = Inl e"
  shows "(is_UnexpectedResponse e \<longrightarrow>
            ensure_collection env s client cname p =
              (raise_or_unit
                 (create_collection_answer env (calls p @ [GetCollection client cname]) client cname
                    \<lparr>vp_size = get_embedding_dimension s, vp_distance = COSINE\<rparr>),
               p\<lparr>calls := calls p @
                    [GetCollection client cname,
                     CreateCollection client cname
                       \<lparr>vp_size = get_embedding_dimension s, vp_distance = COSINE\<rparr>]\<rparr>))
       \<and> (not_found e \<longrightarrow> is_UnexpectedResponse e)
       \<and> (\<not> is_UnexpectedResponse e \<longrightarrow>
            ensure_collection env s client cname p =
              (Inl e, p\<lparr>calls := calls p @ [GetCollection client cname]\<rparr>))"
  using lookup
  by (simp add: ensure_collection_def client_get_collection_def client_create_collection_def
      called_def not_found_def Let_def)

theorem ensure_collection_by_class_witness:
  "get_collection_answer demo_env (calls process_start) demo_client ''notes''
     = Inl (UnexpectedResponse 404)
   \<and> is_UnexpectedResponse (UnexpectedResponse 404)
   \<and> ensure_collection demo_env demo_settings demo_client ''notes'' process_start =
       (Inr (),
        process_start\<lparr>calls :=
          [GetCollection demo_client ''notes'',
           CreateCollection demo_client ''notes'' \<lparr>vp_size = 3072, vp_distance = COSINE\<rparr>]\<rparr>)
   \<and> get_collection_answer offline_env (calls process_start) demo_client ''notes''
       = Inl (ResponseHandlingException ''connection refused'')
   \<and> \<not> is_UnexpectedResponse (ResponseHandlingException ''connection refused'')
   \<and> ensure_collection offline_env demo_settings demo_client ''notes'' process_start =
       (Inl (ResponseHandlingException ''connection refused''),
        process_start\<lparr>calls := [GetCollection demo_client ''notes'']\<rparr>)"
proof -
  have a: "get_collection_answer demo_env (calls process_start) demo_client ''notes''
             = Inl (UnexpectedResponse 404)"
    by (simp add: demo_env_def)
  have b: "get_collection_answer offline_env (calls process_start) demo_client ''notes''
             = Inl (ResponseHandlingException ''connection refused'')"
    by (simp add: offline_env_def demo_env_def)
  have d: "get_embedding_dimension demo_settings = 3072"
    by (simp add: get_embedding_dimension_def demo_settings_def EMBEDDING_DIMENSIONS_def)
  have c: "create_collection_answer demo_env cs client n params = None" for cs client n params
    by (simp add: demo_env_def)
  show ?thesis
    using ensure_collection_by_class [OF a, of demo_settings]
      ensure_collection_by_class [OF b, of demo_settings] a b
    by (simp add: d c raise_or_unit_def process_start_def)
qed

text \<open>
  C1 as stated fails: a lookup answered with status 503 is not a "not found" condition, yet
  \<open>_ensure_collection\<close> returns normally and has requested the creation of the collection.
\<close>

theorem ensure_collection_outage_counterexample:
  "get_collection_answer outage_env (calls process_start) demo_client ''documents''
     = Inl (UnexpectedResponse 503)
   \<and> \<not> not_found (UnexpectedResponse 503)
   \<and> ensure_collection outage_env demo_settings demo_client ''documents'' process_start =
       (Inr (),
        process_start\<lparr>calls :=
          [GetCollection demo_client ''documents'',
           CreateCollection demo_client ''documents''
             \<lparr>vp_size = 3072, vp_distance = COSINE\<rparr>]\<rparr>)"
  by (simp add: ensure_collection_def client_get_collection_def client_create_collection_def
      called_def not_found_def outage_env_def demo_env_def process_start_def raise_or_unit_def
      Let_def get_embedding_dimension_def demo_settings_def EMBEDDING_DIMENSIONS_def)

subsection \<open>The vector field name\<close>

text \<open>
  C8. \<open>_get_vector_name\<close> always returns a string: the first key of the vectors
  configuration when the lookup succeeds and the configuration is a dict with at least one
  key; the empty string when the configuration is one unnamed \<open>VectorParams\<close> object, is
  absent or is an empty dict; and the empty string when the lookup raises, whatever the
  exception.
\<close>

theorem get_vector_name_cases:
  "(\<exists>v. fst (get_vector_name env client cname p) = Inr v)
   \<and> (\<forall>info k params rest.
         get_collection_answer env (calls p) client cname = Inr info
         \<and> info_vectors info = Some (Named ((k, params) # rest))
         \<longrightarrow> fst (get_vector_name env client cname p) = Inr k)
   \<and> (\<forall>info params.
         get_collection_answer env (calls p) client cname = Inr info
         \<and> info_vectors info = Some (Unnamed params)
         \<longrightarrow> fst (get_vector_name env client cname p) = Inr [])
   \<and> (\<forall>info.
         get_collection_answer env (calls p) client cname = Inr info
         \<and> (info_vectors info = None \<or> info_vectors info = Some (Named []))
         \<longrightarrow> fst (get_vector_name env client cname p) = Inr [])
   \<and> (\<forall>e. get_collection_answer env (calls p) client cname = Inl e
         \<longrightarrow> fst (get_vector_name env client cname p) = Inr [])"
  by (auto simp: get_vector_name_def client_get_collection_def
      split: sum.splits option.splits vectors_config.splits list.splits)

theorem get_vector_name_cases_witness:
  "fst (get_vector_name named_env demo_client ''documents'' process_start) = Inr ''dense''
   \<and> fst (get_vector_name demo_env demo_client ''documents'' process_start) = Inr []
   \<and> fst (get_vector_name offline_env demo_client ''documents'' process_start) = Inr []"
proof -
  have a: "get_collection_answer named_env (calls process_start) demo_client ''documents'' =
             Inr (demo_info\<lparr>info_vectors :=
                Some (Named [(''dense'', \<lparr>vp_size = 3072, vp_distance = COSINE\<rparr>),
                             (''sparse'', \<lparr>vp_size = 512, vp_distance = DOT\<rparr>)])\<rparr>)"
    by (simp add: named_env_def demo_env_def)
  have b: "get_collection_answer demo_env (calls process_start) demo_client ''documents'' =
             Inr demo_info"
    by (simp add: demo_env_def)
  have b': "info_vectors demo_info = Some (Unnamed \<lparr>vp_size = 3072, vp_distance = COSINE\<rparr>)"
    by (simp add: demo_info_def)
  have c: "get_collection_answer offline_env (calls process_start) demo_client ''documents'' =
             Inl (ResponseHandlingException ''connection refused'')"
    by (simp add: offline_env_def demo_env_def)
  show ?thesis
    using get_vector_name_cases [of named_env demo_client "''documents''" process_start]
      get_vector_name_cases [of demo_env demo_client "''documents''" process_start]
      get_vector_name_cases [of offline_env demo_client "''documents''" process_start]
      a b b' c
    by simp
qed

subsection \<open>Adding documents\<close>

lemma fresh_ids_eq:
  "fresh_ids env ds p =
     (map (uuid4_str env) [uuid4_calls p ..< uuid4_calls p + length ds],
      p\<lparr>uuid4_calls := uuid4_calls p + length ds\<rparr>)"
proof (induction ds arbitrary: p)
  case Nil
  show ?case by simp
next
  case (Cons d ds)
  have e: "uuid4_calls p + length (d # ds) = Suc (uuid4_calls p) + length ds"
    by simp
  have range: "[uuid4_calls p ..< Suc (uuid4_calls p) + length ds] =
          uuid4_calls p # [Suc (uuid4_calls p) ..< Suc (uuid4_calls p) + length ds]"
    by (rule upt_conv_Cons) simp
  show ?case
    unfolding e range by (simp add: Cons.IH str_uuid4_def del: upt_Suc)
qed

text \<open>
  C4. For the empty document list \<open>add_documents\<close> returns the empty list and leaves the
  process as it was: no call on the vector store, no identifier drawn, no exception.
\<close>

theorem add_documents_empty:
  "add_documents env self [] p = (Inr [], p)"
  by (simp add: add_documents_def)





subsection \<open>Collection statistics and health\<close>

text \<open>
  C6. When the client reports the collection as not found (the lookup raises
  \<open>UnexpectedResponse\<close> with status 404), \<open>get_collection_info\<close> returns the record with the
  collection's name, \<open>points_count = 0\<close>, \<open>indexed_vectors_count = 0\<close> and
  \<open>status = "not_found"\<close>, and raises nothing.
\<close>

theorem get_collection_info_not_found:
  assumes "get_collection_answer env (calls p) (self_client self) (self_collection_name self) = Inl e"
    and "not_found e"
  shows "fst (get_collection_info env self p) =
           Inr \<lparr>name = self_collection_name self, points_count = Some 0,
                indexed_vectors_count = Some 0, status = ''not_found''\<rparr>"
  using assms by (simp add: get_collection_info_def client_get_collection_def not_found_def)

theorem get_collection_info_not_found_witness:
  "get_collection_answer demo_env (calls demo_running)
     (self_client (demo_service\<lparr>self_collection_name := ''notes''\<rparr>))
     (self_collection_name (demo_service\<lparr>self_collection_name := ''notes''\<rparr>))
     = Inl (UnexpectedResponse 404)
   \<and> not_found (UnexpectedResponse 404)
   \<and> fst (get_collection_info demo_env (demo_service\<lparr>self_collection_name := ''notes''\<rparr>)
            demo_running) =
       Inr \<lparr>name = ''notes'', points_count = Some 0, indexed_vectors_count = Some 0,
            status = ''not_found''\<rparr>"
proof -
  have a: "get_collection_answer demo_env (calls demo_running)
     (self_client (demo_service\<lparr>self_collection_name := ''notes''\<rparr>))
     (self_collection_name (demo_service\<lparr>self_collection_name := ''notes''\<rparr>))
     = Inl (UnexpectedResponse 404)"
    by (simp add: demo_env_def)
  have b: "not_found (UnexpectedResponse 404)"
    by (simp add: not_found_def)
  show ?thesis
    using get_collection_info_not_found [OF a b] a b by simp
qed

text \<open>
  C7. \<open>health_check\<close> always returns a boolean and never an exception: \<open>True\<close> exactly
  when the probe \<open>client.get_collections()\<close> returns, \<open>False\<close> when it raises, whatever
  the exception.
\<close>

theorem health_check_probe:
  "fst (health_check env self p) =
     Inr (case get_collections_answer env (calls p) (self_client self) of
            Inr collections \<Rightarrow> True | Inl e \<Rightarrow> False)"
  by (simp add: health_check_def client_get_collections_def split: sum.splits)

lemma health_check_examples:
  "fst (health_check demo_env demo_service demo_running) = Inr True
   \<and> fst (health_check offline_env demo_service demo_running) = Inr False"
  by (simp add: health_check_def client_get_collections_def demo_env_def offline_env_def)

subsection \<open>The cached client\<close>

lemma keeps_cache_and_then:
  assumes "keeps_cache m" and "\<And>x. keeps_cache (f x)"
  shows "keeps_cache (and_then m f)"
  using assms
  by (auto simp: keeps_cache_def and_then_def split: prod.splits sum.splits)
    (metis snd_conv)+

lemma keeps_cache_called: "client_cache (called c p) = client_cache p \<and> clients_created (called c p) = clients_created p"
  by (simp add: called_def)

lemma keeps_cache_client_get_collection: "keeps_cache (client_get_collection env client cname)"
  by (simp add: keeps_cache_def client_get_collection_def called_def)

lemma keeps_cache_ensure_collection: "keeps_cache (ensure_collection env s client cname)"
  by (simp add: keeps_cache_def ensure_collection_def client_get_collection_def
      client_create_collection_def called_def Let_def split: sum.splits)

lemma keeps_cache_get_vector_name: "keeps_cache (get_vector_name env client cname)"
  by (simp add: keeps_cache_def get_vector_name_def client_get_collection_def called_def
      split: sum.splits option.splits vectors_config.splits list.splits)

lemma keeps_cache_QdrantVectorStore:
  "keeps_cache (QdrantVectorStore env client cname embedding vector_name)"
  by (simp add: keeps_cache_def QdrantVectorStore_def called_def Let_def)

lemma keeps_cache_fresh_ids:
  "client_cache (snd (fresh_ids env ds p)) = client_cache p
   \<and> clients_created (snd (fresh_ids env ds p)) = clients_created p"
  by (simp add: fresh_ids_eq)

lemma keeps_cache_add_documents: "keeps_cache (add_documents env self documents)"
  unfolding keeps_cache_def
proof (intro allI)
  fix p
  show "client_cache (snd (add_documents env self documents p)) = client_cache p \<and>
        clients_created (snd (add_documents env self documents p)) = clients_created p"
    using keeps_cache_fresh_ids [of env documents p]
    by (auto simp: add_documents_def vs_add_documents_def called_def split: prod.splits sum.splits)
qed

lemma keeps_cache_search: "keeps_cache (search env s self query k)"
  by (simp add: keeps_cache_def search_def vs_similarity_search_def called_def Let_def)

lemma keeps_cache_search_with_scores: "keeps_cache (search_with_scores env s self query k)"
  by (simp add: keeps_cache_def search_with_scores_def vs_similarity_search_with_score_def
      called_def Let_def)

lemma keeps_cache_get_retriever: "keeps_cache (get_retriever s self k)"
  by (simp add: keeps_cache_def get_retriever_def Let_def)

lemma keeps_cache_delete_collection: "keeps_cache (delete_collection env self)"
  by (simp add: keeps_cache_def delete_collection_def client_delete_collection_def called_def)

lemma keeps_cache_get_collection_info: "keeps_cache (get_collection_info env self)"
  by (simp add: keeps_cache_def get_collection_info_def client_get_collection_def called_def
      split: sum.splits)

lemma keeps_cache_health_check: "keeps_cache (health_check env self)"
  by (simp add: keeps_cache_def health_check_def client_get_collections_def called_def
      split: sum.splits)

lemma cache_ok_keeps: "keeps_cache m \<Longrightarrow> cache_ok s p \<Longrightarrow> cache_ok s (snd (m p))"
  by (simp add: keeps_cache_def cache_ok_def split: option.splits)

lemma get_qdrant_client_cache_ok:
  assumes "cache_ok s p"
  shows "cache_ok s (snd (get_qdrant_client env s p))"
  using assms
  by (auto simp: cache_ok_def get_qdrant_client_def the_client_def Let_def
      split: option.splits)

lemma get_qdrant_client_returns:
  assumes "cache_ok s p" and "get_qdrant_client env s p = (Inr c, p')"
  shows "c = the_client s \<and> client_cache p' = Some (the_client s) \<and> clients_created p' = 1"
  using assms
  by (auto simp: cache_ok_def get_qdrant_client_def the_client_def Let_def
      split: option.splits if_splits)


lemma keeps_cache_after_client:
  "keeps_cache
     (and_then (\<lambda>p. (get_embeddings_answer env, p)) (\<lambda>embeddings.
      and_then (ensure_collection env s client cname) (\<lambda>u.
      and_then (get_vector_name env client cname) (\<lambda>vector_name.
      and_then (QdrantVectorStore env client cname embeddings vector_name) (\<lambda>vector_store p.
        (Inr \<lparr>self_collection_name = cname, self_client = client,
              self_embeddings = embeddings, self_vector_store = vector_store\<rparr>, p))))))"
  by (intro keeps_cache_and_then keeps_cache_ensure_collection keeps_cache_get_vector_name
      keeps_cache_QdrantVectorStore) (simp_all add: keeps_cache_def)

lemma VectorStoreService_cache_ok:
  assumes "cache_ok s p"
  shows "cache_ok s (snd (VectorStoreService env s arg p))"
proof (cases "get_qdrant_client env s p")
  case (Pair r p1)
  have ok1: "cache_ok s p1"
    using get_qdrant_client_cache_ok [OF assms, of env] Pair by simp
  show ?thesis
  proof (cases r)
    case (Inl e)
    with Pair ok1 show ?thesis
      by (simp add: VectorStoreService_def and_then_def Let_def)
  next
    case (Inr client)
    with Pair show ?thesis
      using cache_ok_keeps [OF keeps_cache_after_client ok1,
          of env s client "str_or arg (collection_name s)"]
      by (simp add: VectorStoreService_def Let_def and_then_def [of "get_qdrant_client env s"])
  qed
qed

lemma VectorStoreService_client:
  assumes "VectorStoreService env s arg p = (Inr self, p')"
  shows "\<exists>p1. get_qdrant_client env s p = (Inr (self_client self), p1)
              \<and> vs_client (self_vector_store self) = self_client self
              \<and> client_cache p' = client_cache p1
              \<and> clients_created p' = clients_created p1"
proof (cases "get_qdrant_client env s p")
  case (Pair r p1)
  show ?thesis
  proof (cases r)
    case (Inl e)
    with Pair assms show ?thesis
      by (simp add: VectorStoreService_def and_then_def Let_def)
  next
    case (Inr client)
    have k: "client_cache (snd (rest p1)) = client_cache p1
             \<and> clients_created (snd (rest p1)) = clients_created p1"
      if "keeps_cache rest" for rest :: "service prog"
      using that by (simp add: keeps_cache_def)
    from Pair Inr assms show ?thesis
      using k [OF keeps_cache_after_client, of env s client "str_or arg (collection_name s)"]
      by (auto simp: VectorStoreService_def Let_def and_then_def QdrantVectorStore_def
          split: sum.splits prod.splits option.splits)
  qed
qed

lemma reaches_cache_ok:
  assumes "reaches env s p q" and "cache_ok s p"
  shows "cache_ok s q"
  using assms
proof (induction rule: reaches.induct)
  case here
  then show ?case by simp
next
  case (by_get_qdrant_client q)
  then show ?case by (simp add: get_qdrant_client_cache_ok)
next
  case (by_VectorStoreService q arg)
  then show ?case by (simp add: VectorStoreService_cache_ok)
next
  case (by_add_documents q self documents)
  then show ?case by (simp add: cache_ok_keeps keeps_cache_add_documents)
next
  case (by_search q self query k)
  then show ?case by (simp add: cache_ok_keeps keeps_cache_search)
next
  case (by_search_with_scores q self query k)
  then show ?case by (simp add: cache_ok_keeps keeps_cache_search_with_scores)
next
  case (by_get_retriever q self k)
  then show ?case by (simp add: cache_ok_keeps keeps_cache_get_retriever)
next
  case (by_delete_collection q self)
  then show ?case by (simp add: cache_ok_keeps keeps_cache_delete_collection)
next
  case (by_get_collection_info q self)
  then show ?case by (simp add: cache_ok_keeps keeps_cache_get_collection_info)
next
  case (by_health_check q self)
  then show ?case by (simp add: cache_ok_keeps keeps_cache_health_check)
qed

lemma cache_ok_start: "cache_ok s process_start"
  by (simp add: cache_ok_def process_start_def)

lemma demo_get_client_start:
  "get_qdrant_client demo_env demo_settings process_start =
     (Inr demo_client, process_start\<lparr>client_cache := Some demo_client, clients_created := 1\<rparr>)"
  by (simp add: get_qdrant_client_def demo_env_def demo_settings_def demo_client_def
      the_client_def truthy_str_def process_start_def Let_def)

lemma demo_get_client_cached:
  "client_cache p = Some c \<Longrightarrow> get_qdrant_client env s p = (Inr c, p)"
  by (simp add: get_qdrant_client_def)

lemma demo_ensure_collection:
  "ensure_collection demo_env s client ''documents'' p =
     (Inr (), called (GetCollection client ''documents'') p)"
  by (simp add: ensure_collection_def client_get_collection_def demo_env_def)

lemma demo_get_vector_name:
  "get_vector_name demo_env client ''documents'' p =
     (Inr [], called (GetCollection client ''documents'') p)"
  by (simp add: get_vector_name_def client_get_collection_def demo_env_def demo_info_def)

lemma demo_QdrantVectorStore:
  "QdrantVectorStore demo_env client cname embedding vector_name p =
     (Inr \<lparr>vs_client = client, vs_collection_name = cname,
           vs_embedding = embedding, vs_vector_name = vector_name\<rparr>,
      called (NewVectorStore client cname embedding vector_name) p)"
  by (simp add: QdrantVectorStore_def demo_env_def Let_def)

lemma demo_embeddings:
  "get_embeddings_answer demo_env = Inr (Embeddings ''text-embedding-3-large'')"
  by (simp add: demo_env_def)

lemma demo_name: "str_or None (collection_name demo_settings) = ''documents''"
  by (simp add: str_or_def demo_settings_def)

lemma demo_first_service:
  "VectorStoreService demo_env demo_settings None process_start = (Inr demo_service, demo_running)"
proof -
  have start: "calls process_start = []"
    by (simp add: process_start_def)
  have built: "VectorStoreService demo_env demo_settings None process_start =
          (Inr demo_service,
           process_start\<lparr>client_cache := Some demo_client, clients_created := 1,
             calls := [GetCollection demo_client ''documents'',
                       GetCollection demo_client ''documents'',
                       NewVectorStore demo_client ''documents''
                         (Embeddings ''text-embedding-3-large'') []]\<rparr>)"
    unfolding VectorStoreService_def Let_def demo_name
    by (simp add: and_then_def demo_get_client_start demo_embeddings demo_ensure_collection
        demo_get_vector_name demo_QdrantVectorStore called_def demo_service_def start)
  show ?thesis
    unfolding built by (simp add: demo_running_def process_start_def)
qed

lemma demo_second_service:
  "VectorStoreService demo_env demo_settings None demo_running =
     (Inr demo_service,
      demo_running\<lparr>calls := calls demo_running @
         [GetCollection demo_client ''documents'',
          GetCollection demo_client ''documents'',
          NewVectorStore demo_client ''documents'' (Embeddings ''text-embedding-3-large'') []]\<rparr>)"
proof -
  have cached: "get_qdrant_client demo_env demo_settings demo_running = (Inr demo_client, demo_running)"
    by (rule demo_get_client_cached) (simp add: demo_running_def)
  show ?thesis
    unfolding VectorStoreService_def Let_def demo_name
    by (simp add: and_then_def cached demo_embeddings demo_ensure_collection
        demo_get_vector_name demo_QdrantVectorStore called_def demo_service_def)
qed

text \<open>
  C9. In every state that a process reaches from its start by calls of the module's
  functions, at most one client has been constructed; every call of \<open>get_qdrant_client\<close>
  that returns yields the same client object, the first one constructed, and constructs no
  other; and every service object that \<open>VectorStoreService\<close> builds holds that client, in
  \<open>self.client\<close> and inside its vector store. (Calls are sequential, as in the module.)
\<close>

theorem client_created_once:
  assumes run: "reaches env s process_start p"
  shows "clients_created p \<le> 1
       \<and> (\<forall>c p'. get_qdrant_client env s p = (Inr c, p') \<longrightarrow>
             c = the_client s \<and> clients_created p' = 1
             \<and> get_qdrant_client env s p' = (Inr c, p'))
       \<and> (\<forall>arg self p'. VectorStoreService env s arg p = (Inr self, p') \<longrightarrow>
             self_client self = the_client s
             \<and> vs_client (self_vector_store self) = the_client s
             \<and> clients_created p' = 1)"
proof -
  have ok: "cache_ok s p"
    using reaches_cache_ok [OF run cache_ok_start] .
  have count: "clients_created p \<le> 1"
    using ok by (simp add: cache_ok_def split: option.splits)
  have accessor: "c = the_client s \<and> clients_created p' = 1
                  \<and> get_qdrant_client env s p' = (Inr c, p')"
    if "get_qdrant_client env s p = (Inr c, p')" for c p'
    using get_qdrant_client_returns [OF ok that]
    by (simp add: get_qdrant_client_def)
  have init: "self_client self = the_client s
              \<and> vs_client (self_vector_store self) = the_client s
              \<and> clients_created p' = 1"
    if built: "VectorStoreService env s arg p = (Inr self, p')" for arg self p'
  proof -
    obtain p1 where g: "get_qdrant_client env s p = (Inr (self_client self), p1)"
      and v: "vs_client (self_vector_store self) = self_client self"
      and n: "clients_created p' = clients_created p1"
      using VectorStoreService_client [OF built] by blast
    show ?thesis
      using get_qdrant_client_returns [OF ok g] v n by simp
  qed
  show ?thesis
    using count accessor init by blast
qed

theorem client_created_once_witness:
  "reaches demo_env demo_settings process_start demo_running
   \<and> fst (VectorStoreService demo_env demo_settings None demo_running) = Inr demo_service
   \<and> self_client demo_service = the_client demo_settings
   \<and> clients_created (snd (VectorStoreService demo_env demo_settings None demo_running)) = 1"
proof -
  have run: "reaches demo_env demo_settings process_start demo_running"
    using by_VectorStoreService [OF here, of demo_env demo_settings process_start None]
    by (simp add: demo_first_service)
  note init = conjunct2 [OF conjunct2 [OF client_created_once [OF run]], rule_format,
      OF demo_second_service]
  have second: "fst (VectorStoreService demo_env demo_settings None demo_running) = Inr demo_service"
    by (simp add: demo_second_service)
  have count: "clients_created (snd (VectorStoreService demo_env demo_settings None demo_running)) = 1"
    using init by (simp add: demo_second_service)
  show ?thesis
    using run second init count by blast
qed

subsection \<open>Searching\<close>

lemma search_forward:
  "search env s self query k p =
     (similarity_search_answer env (calls p) (self_vector_store self) query
        (int_or k (retrieval_k s)),
      p\<lparr>calls := calls p @
           [SimilaritySearch (self_vector_store self) query (int_or k (retrieval_k s))]\<rparr>)"
  by (simp add: search_def vs_similarity_search_def called_def Let_def)

lemma search_with_scores_forward:
  "search_with_scores env s self query k p =
     (similarity_search_with_score_answer env (calls p) (self_vector_store self) query
        (int_or k (retrieval_k s)),
      p\<lparr>calls := calls p @
           [SimilaritySearchWithScore (self_vector_store self) query
              (int_or k (retrieval_k s))]\<rparr>)"
  by (simp add: search_with_scores_def vs_similarity_search_with_score_def called_def Let_def)

lemma int_or_None: "int_or None d = d"
  by (simp add: int_or_def)

lemma int_or_zero: "int_or (Some 0) d = d"
  by (simp add: int_or_def)











text \<open>
  C10. With \<open>k = 0\<close>, \<open>search\<close>, \<open>search_with_scores\<close> and \<open>get_retriever\<close> do exactly what
  they do with \<open>k\<close> unspecified: the same result and the same process state, and the count
  handed to the vector store or stored in the retriever is the configured default. Whatever
  \<open>k\<close> the caller passes, the count used is 0 only when the configured default itself is 0:
  the argument \<open>k\<close> cannot request zero results.
\<close>

theorem zero_k_is_unspecified:
  "search env s self query (Some 0) p = search env s self query None p
   \<and> search_with_scores env s self query (Some 0) p = search_with_scores env s self query None p
   \<and> get_retriever s self (Some 0) p = get_retriever s self None p
   \<and> calls (snd (search env s self query (Some 0) p)) =
       calls p @ [SimilaritySearch (self_vector_store self) query (retrieval_k s)]
   \<and> calls (snd (search_with_scores env s self query (Some 0) p)) =
       calls p @ [SimilaritySearchWithScore (self_vector_store self) query (retrieval_k s)]
   \<and> fst (get_retriever s self (Some 0) p) =
       Inr \<lparr>retriever_vectorstore = self_vector_store self, search_type = ''similarity'',
            search_kwargs_k = retrieval_k s\<rparr>
   \<and> (\<forall>k. int_or k (retrieval_k s) = 0 \<longrightarrow> retrieval_k s = 0)"
proof -
  have same: "int_or (Some 0) (retrieval_k s) = int_or None (retrieval_k s)"
    by (simp add: int_or_zero int_or_None)
  have a: "search env s self query (Some 0) p = search env s self query None p"
    unfolding search_def same ..
  have b: "search_with_scores env s self query (Some 0) p =
           search_with_scores env s self query None p"
    unfolding search_with_scores_def same ..
  have c: "get_retriever s self (Some 0) p = get_retriever s self None p"
    unfolding get_retriever_def same ..
  have d: "calls (snd (search env s self query (Some 0) p)) =
             calls p @ [SimilaritySearch (self_vector_store self) query (retrieval_k s)]"
    by (simp add: search_forward int_or_zero)
  have e: "calls (snd (search_with_scores env s self query (Some 0) p)) =
             calls p @ [SimilaritySearchWithScore (self_vector_store self) query (retrieval_k s)]"
    by (simp add: search_with_scores_forward int_or_zero)
  have f: "fst (get_retriever s self (Some 0) p) =
             Inr \<lparr>retriever_vectorstore = self_vector_store self, search_type = ''similarity'',
                  search_kwargs_k = retrieval_k s\<rparr>"
    by (simp add: get_retriever_def vs_as_retriever_def int_or_zero)
  have g: "retrieval_k s = 0" if "int_or k (retrieval_k s) = 0" for k
    using that by (simp add: int_or_def split: option.splits if_splits)
  show ?thesis
    using a b c d e f g by blast
qed

theorem zero_k_is_unspecified_witness:
  "retrieval_k demo_settings = 4
   \<and> int_or (Some 0) (retrieval_k demo_settings) \<noteq> 0
   \<and> calls (snd (search demo_env demo_settings demo_service ''query'' (Some 0) process_start)) =
       [SimilaritySearch (self_vector_store demo_service) ''query'' 4]"
proof -
  note inst = zero_k_is_unspecified [of demo_env demo_settings demo_service "''query''" process_start]
  note sent = inst [THEN conjunct2, THEN conjunct2, THEN conjunct2, THEN conjunct1]
  note never = inst [THEN conjunct2, THEN conjunct2, THEN conjunct2, THEN conjunct2,
      THEN conjunct2, THEN conjunct2, rule_format, of "Some 0"]
  have k: "retrieval_k demo_settings = 4"
    by (simp add: demo_settings_def)
  have nz: "int_or (Some 0) (retrieval_k demo_settings) \<noteq> 0"
    using never k by auto
  have start: "calls process_start = []"
    by (simp add: process_start_def)
  have c: "calls (snd (search demo_env demo_settings demo_service ''query'' (Some 0) process_start)) =
       [SimilaritySearch (self_vector_store demo_service) ''query'' 4]"
    unfolding sent k start by simp
  show ?thesis
    using k nz c by blast
qed

end
